theory Spec2Isabelle
  imports Main "HOL-Library.AList"
begin

section \<open>The effects configuration of a camera track\<close>

text \<open>
  The development follows \<^verbatim>\<open>EffectsConfiguration.tsx\<close>: the component that
  applies a blur, a virtual background or a face-landmark overlay to the local camera
  track. The functions of the component (\<^verbatim>\<open>clearEffect\<close>, \<^verbatim>\<open>toggleEffect\<close>,
  \<^verbatim>\<open>getProcessor\<close>, \<^verbatim>\<open>isSelected\<close>, \<^verbatim>\<open>getFaceLandmarksOptions\<close>,
  \<^verbatim>\<open>toggleFaceLandmarkEffect\<close>) are embedded one by one, each over an explicit
  state that holds what the component reads and writes.
\<close>

subsection \<open>Option objects\<close>

text \<open>
  \<^verbatim>\<open>ProcessorType\<close> is imported from the \<^verbatim>\<open>blur\<close> module; the component uses
  its three members. \<^verbatim>\<open>BlurRadius\<close> is the enum declared at the top of the file.
\<close>

datatype ProcessorType = BLUR | VIRTUAL | FACE_LANDMARKS

datatype BlurRadius = NONE | LIGHT | NORMAL

fun BlurRadius_value :: "BlurRadius \<Rightarrow> nat" where
  "BlurRadius_value NONE = 0"
| "BlurRadius_value LIGHT = 5"
| "BlurRadius_value NORMAL = 10"

text \<open>
  A \<^verbatim>\<open>BackgroundOptions\<close> object is a JavaScript object whose properties, at every
  call site of the component, hold a number (\<^verbatim>\<open>blurRadius\<close>), a string
  (\<^verbatim>\<open>imagePath\<close>) or a boolean (\<^verbatim>\<open>showGlasses\<close>, \<^verbatim>\<open>showFrench\<close>).
  A JavaScript object keeps its string keys (property names such as these, which are not
  array indices) in insertion order, and \<^verbatim>\<open>JSON.stringify\<close> prints them in that
  order, so the object is an association list: the order of the entries is the key
  order.
\<close>

datatype jsvalue = JNum nat | JStr string | JBool bool

type_synonym BackgroundOptions = "(string \<times> jsvalue) list"

text \<open>Reading a property: \<^verbatim>\<open>options[key]\<close> is \<^verbatim>\<open>undefined\<close> (here \<open>None\<close>)
  when the key is absent. \<open>truthy\<close> is JavaScript's boolean coercion, which
  \<^verbatim>\<open>!x\<close> negates.\<close>

fun truthy :: "jsvalue option \<Rightarrow> bool" where
  "truthy None = False"
| "truthy (Some (JBool b)) = b"
| "truthy (Some (JNum n)) = (n \<noteq> 0)"
| "truthy (Some (JStr s)) = (s \<noteq> [])"

subsection \<open>\<^verbatim>\<open>JSON.stringify\<close> on option objects\<close>

definition dquote :: char where
  "dquote = CHR 0x22"

definition bslash :: char where
  "bslash = CHR 0x5C"

definition hexdigit :: "nat \<Rightarrow> char" where
  "hexdigit n = (if n < 10 then char_of (48 + n) else char_of (87 + n))"

text \<open>The escape of one character inside a JSON string: the short escapes, then
  \<^verbatim>\<open>\u00XX\<close> for the remaining control characters, then the character itself.\<close>

definition esc_char :: "char \<Rightarrow> string" where
  "esc_char c =
     (if c = CHR 0x08 then [bslash, CHR ''b'']
      else if c = CHR 0x09 then [bslash, CHR ''t'']
      else if c = CHR 0x0A then [bslash, CHR ''n'']
      else if c = CHR 0x0C then [bslash, CHR ''f'']
      else if c = CHR 0x0D then [bslash, CHR ''r'']
      else if c = dquote then [bslash, dquote]
      else if c = bslash then [bslash, bslash]
      else if (of_char c :: nat) < 32
        then [bslash, CHR ''u'', CHR ''0'', CHR ''0'',
              hexdigit ((of_char c :: nat) div 16), hexdigit ((of_char c :: nat) mod 16)]
      else [c])"

fun esc :: "string \<Rightarrow> string" where
  "esc [] = []"
| "esc (c # cs) = esc_char c @ esc cs"

definition quote :: "string \<Rightarrow> string" where
  "quote s = dquote # esc s @ [dquote]"

text \<open>The decimal text of a non-negative integer.\<close>

fun digits :: "nat \<Rightarrow> string" where
  "digits n = (if n < 10 then [char_of (48 + n)]
               else digits (n div 10) @ [char_of (48 + n mod 10)])"

declare digits.simps [simp del]

fun stringify_value :: "jsvalue \<Rightarrow> string" where
  "stringify_value (JNum n) = digits n"
| "stringify_value (JStr s) = quote s"
| "stringify_value (JBool b) = (if b then ''true'' else ''false'')"

definition stringify_entry :: "string \<times> jsvalue \<Rightarrow> string" where
  "stringify_entry e = quote (fst e) @ CHR '':'' # stringify_value (snd e)"

fun stringify_rest :: "BackgroundOptions \<Rightarrow> string" where
  "stringify_rest [] = ''}''"
| "stringify_rest (e # es) = CHR '','' # stringify_entry e @ stringify_rest es"

fun JSON_stringify :: "BackgroundOptions \<Rightarrow> string" where
  "JSON_stringify [] = ''{}''"
| "JSON_stringify (e # es) = CHR ''{'' # stringify_entry e @ stringify_rest es"

text \<open>Two auxiliaries for reading the text back: the decimal digits, and the number a
  run of digits denotes.\<close>

definition is_digit :: "char \<Rightarrow> bool" where
  "is_digit c = (48 \<le> (of_char c :: nat) \<and> (of_char c :: nat) < 58)"

definition digits_value :: "string \<Rightarrow> nat" where
  "digits_value cs = foldl (\<lambda>a c. 10 * a + ((of_char c :: nat) - 48)) 0 cs"

definition terminated :: "string \<Rightarrow> bool" where
  "terminated r = (r \<noteq> [] \<and> \<not> is_digit (hd r))"

text \<open>
  Deep equality of two option objects as the specification words it: the same keys with
  the same values, whatever the order of the keys. It is not part of the component; it
  is the relation the component's comparison is measured against.
\<close>

definition spec_deep_equal :: "BackgroundOptions \<Rightarrow> BackgroundOptions \<Rightarrow> bool" where
  "spec_deep_equal a b =
     (list_all (\<lambda>e. map_of b (fst e) = Some (snd e)) a \<and>
      list_all (\<lambda>e. map_of a (fst e) = Some (snd e)) b)"

subsection \<open>Processors, the track and the component's state\<close>

text \<open>
  A processor is an object with an identity; \<open>pid\<close> stands for the reference. Its kind
  and options are what \<^verbatim>\<open>serialize()\<close> reports.
\<close>

record Processor =
  pid :: nat
  ptype :: ProcessorType
  poptions :: BackgroundOptions

record Serialized =
  ser_type :: ProcessorType
  ser_options :: BackgroundOptions

text \<open>Modelled from the spec: \<^verbatim>\<open>serialize()\<close> of a processor of the \<^verbatim>\<open>blur\<close>
  module, which is not among the sources. The specification's \<^verbatim>\<open>getDescriptor\<close>
  returns the current kind and options of the processor.\<close>

definition serialize :: "Processor \<Rightarrow> Serialized" where
  "serialize p = \<lparr>ser_type = ptype p, ser_options = poptions p\<rparr>"

text \<open>\<^verbatim>\<open>LocalVideoTrack\<close> belongs to the media library (\<^verbatim>\<open>livekit-client\<close>). The
  component sees one thing of it: the processor the track currently runs, if any.\<close>

record LocalVideoTrack =
  processor :: "Processor option"

datatype error = TypeError | TrackUnavailable | ProcessorFailure

text \<open>The calls the component makes on its collaborators, in the order it makes them.\<close>

datatype event =
    Construct Processor
  | EnableTrack "Processor option"
  | StopProcessor
  | SetProcessor Processor
  | Update nat BackgroundOptions
  | Submit "Processor option"
  | ConsoleError error

text \<open>
  The state: the props \<^verbatim>\<open>videoTrack\<close> (absent when the room is entered with the
  camera off) and \<^verbatim>\<open>onSubmit\<close> (optional; \<open>True\<close> when the parent passes it), the
  \<^verbatim>\<open>enabled\<close> flag of \<^verbatim>\<open>useTrackToggle\<close>, the \<^verbatim>\<open>processorPending\<close> state
  variable, the number of \<^verbatim>\<open>setTimeout\<close> callbacks that wait to reset it, the number
  of processors the factory has constructed, and the log of calls. Each call of a
  function of the component reads the props of the latest render.
\<close>

record state =
  videoTrack :: "LocalVideoTrack option"
  onSubmit :: bool
  enabled :: bool
  processorPending :: bool
  timeouts :: nat
  constructed :: nat
  events :: "event list"

text \<open>Whether the calls on the media library succeed is not decided by the component;
  each run is given the outcome of each call it may make.\<close>

record env =
  toggle_ok :: bool
  stopProcessor_ok :: bool
  setProcessor_ok :: bool
  update_ok :: bool

type_synonym 'a outcome = "(error + 'a) \<times> state"

definition and_then :: "'a outcome \<Rightarrow> ('a \<Rightarrow> state \<Rightarrow> 'b outcome) \<Rightarrow> 'b outcome" where
  "and_then r f = (case r of (Inl e, s) \<Rightarrow> (Inl e, s) | (Inr x, s) \<Rightarrow> f x s)"

definition log :: "event \<Rightarrow> state \<Rightarrow> state" where
  "log ev s = s\<lparr>events := events s @ [ev]\<rparr>"

subsection \<open>The collaborators\<close>

text \<open>Modelled from the spec: \<^verbatim>\<open>BackgroundProcessorFactory.getProcessor\<close> of the
  \<^verbatim>\<open>blur\<close> module, which is not among the sources. The specification's
  \<^verbatim>\<open>createProcessor\<close> constructs a new unbound processor of the descriptor's kind,
  initialised with the descriptor's options. The component asserts the result non-null
  and renders its controls only when the factory reports support.\<close>

definition BackgroundProcessorFactory_getProcessor ::
    "ProcessorType \<Rightarrow> BackgroundOptions \<Rightarrow> state \<Rightarrow> Processor \<times> state" where
  "BackgroundProcessorFactory_getProcessor t opts s =
     (let p = \<lparr>pid = constructed s, ptype = t, poptions = opts\<rparr>
      in (p, log (Construct p) (s\<lparr>constructed := Suc (constructed s)\<rparr>)))"

text \<open>Modelled from the spec: \<^verbatim>\<open>update(options)\<close> of a processor of the \<^verbatim>\<open>blur\<close>
  module. The specification's \<^verbatim>\<open>updateOptions\<close> applies the new options to the
  running processor in place, and \<^verbatim>\<open>getDescriptor\<close> reflects them afterwards. The
  processor is the one the track holds, so the track sees the new options.\<close>

definition update_options :: "env \<Rightarrow> BackgroundOptions \<Rightarrow> state \<Rightarrow> unit outcome" where
  "update_options ev opts s =
     (case videoTrack s of
        None \<Rightarrow> (Inl TypeError, s)
      | Some tr \<Rightarrow>
          (case processor tr of
             None \<Rightarrow> (Inl TypeError, s)
           | Some p \<Rightarrow>
               (let s1 = log (Update (pid p) opts) s
                in if update_ok ev
                   then (Inr (), s1\<lparr>videoTrack := Some (tr\<lparr>processor := Some (p\<lparr>poptions := opts\<rparr>)\<rparr>)\<rparr>)
                   else (Inl ProcessorFailure, s1))))"

text \<open>Modelled from the spec: \<^verbatim>\<open>videoTrack.stopProcessor()\<close> of the media library,
  the specification's \<^verbatim>\<open>unbindProcessor\<close>. A track with no processor has nothing to
  stop and returns; a track with one either stops it, leaving none, or fails and keeps it.
  The component calls the method with no check of \<^verbatim>\<open>videoTrack\<close>: on an absent track
  the call is a \<^verbatim>\<open>TypeError\<close>.\<close>

definition videoTrack_stopProcessor :: "env \<Rightarrow> state \<Rightarrow> unit outcome" where
  "videoTrack_stopProcessor ev s =
     (case videoTrack s of
        None \<Rightarrow> (Inl TypeError, s)
      | Some tr \<Rightarrow>
          (let s1 = log StopProcessor s
           in case processor tr of
                None \<Rightarrow> (Inr (), s1)
              | Some p \<Rightarrow>
                  if stopProcessor_ok ev
                  then (Inr (), s1\<lparr>videoTrack := Some (tr\<lparr>processor := None\<rparr>)\<rparr>)
                  else (Inl ProcessorFailure, s1)))"

text \<open>Modelled from the spec: \<^verbatim>\<open>videoTrack.setProcessor(p)\<close> of the media library,
  the specification's \<^verbatim>\<open>bindProcessor\<close>. The track either runs \<open>p\<close> in place of what
  it ran before, or fails and keeps what it ran; what the library does with the replaced
  processor is not part of the model.\<close>

definition videoTrack_setProcessor :: "env \<Rightarrow> Processor \<Rightarrow> state \<Rightarrow> unit outcome" where
  "videoTrack_setProcessor ev p s =
     (case videoTrack s of
        None \<Rightarrow> (Inl TypeError, s)
      | Some tr \<Rightarrow>
          (let s1 = log (SetProcessor p) s
           in if setProcessor_ok ev
              then (Inr (), s1\<lparr>videoTrack := Some (tr\<lparr>processor := Some p\<rparr>)\<rparr>)
              else (Inl ProcessorFailure, s1)))"

text \<open>Modelled from the spec: \<^verbatim>\<open>toggle(true, {processor})\<close> of the media library's
  \<^verbatim>\<open>useTrackToggle\<close>, the specification's \<^verbatim>\<open>enableTrack(initialProcessor?)\<close>, which
  fails with \<^verbatim>\<open>TrackUnavailable\<close> or enables the camera. A failure changes nothing;
  after a success the camera is enabled, and where no track existed the component
  receives a track that runs the processor passed in.\<close>

definition toggle :: "env \<Rightarrow> Processor option \<Rightarrow> state \<Rightarrow> unit outcome" where
  "toggle ev popt s =
     (let s1 = log (EnableTrack popt) s
      in if toggle_ok ev
         then (Inr (),
               s1\<lparr>enabled := True,
                  videoTrack := (case videoTrack s of
                                   None \<Rightarrow> Some \<lparr>processor = popt\<rparr>
                                 | Some tr \<Rightarrow> Some tr)\<rparr>)
         else (Inl TrackUnavailable, s1))"

text \<open>\<^verbatim>\<open>onSubmit?.(x)\<close>: the parent is called when it passed the callback.\<close>

definition call_onSubmit :: "Processor option \<Rightarrow> state \<Rightarrow> state" where
  "call_onSubmit x s = (if onSubmit s then log (Submit x) s else s)"

text \<open>\<^verbatim>\<open>setTimeout(() => setProcessorPending(false))\<close> queues the reset;
  \<open>runTimeouts\<close> is the event loop running what is queued.\<close>

definition setTimeout_clearPending :: "state \<Rightarrow> state" where
  "setTimeout_clearPending s = s\<lparr>timeouts := Suc (timeouts s)\<rparr>"

definition runTimeouts :: "state \<Rightarrow> state" where
  "runTimeouts s = (if timeouts s = 0 then s else s\<lparr>processorPending := False, timeouts := 0\<rparr>)"

subsection \<open>The component's functions\<close>

definition getProcessor :: "state \<Rightarrow> Processor option" where
  "getProcessor s = (case videoTrack s of None \<Rightarrow> None | Some tr \<Rightarrow> processor tr)"

definition isSelected :: "ProcessorType \<Rightarrow> BackgroundOptions \<Rightarrow> state \<Rightarrow> bool" where
  "isSelected t opts s =
     (case getProcessor s of
        None \<Rightarrow> False
      | Some p \<Rightarrow>
          ser_type (serialize p) = t \<and>
          JSON_stringify (ser_options (serialize p)) = JSON_stringify opts)"

definition clearEffect :: "env \<Rightarrow> state \<Rightarrow> unit outcome" where
  "clearEffect ev s =
     and_then (videoTrack_stopProcessor ev s) (\<lambda>_ s1. (Inr (), call_onSubmit None s1))"

text \<open>The body of the \<^verbatim>\<open>try\<close> block of \<^verbatim>\<open>toggleEffect\<close>.\<close>

definition toggleEffect_try ::
    "env \<Rightarrow> ProcessorType \<Rightarrow> BackgroundOptions \<Rightarrow> Processor option \<Rightarrow> state \<Rightarrow> unit outcome" where
  "toggleEffect_try ev t opts proc s =
     (if isSelected t opts s then clearEffect ev s
      else if (case proc of None \<Rightarrow> True | Some p \<Rightarrow> ser_type (serialize p) \<noteq> t)
      then (case BackgroundProcessorFactory_getProcessor t opts s of
              (newProcessor, s1) \<Rightarrow>
                and_then (videoTrack_setProcessor ev newProcessor s1)
                  (\<lambda>_ s2. (Inr (), call_onSubmit (Some newProcessor) s2)))
      else and_then (update_options ev opts s)
             (\<lambda>_ s1. (Inr (), call_onSubmit (getProcessor s1) s1)))"

definition toggleEffect :: "env \<Rightarrow> ProcessorType \<Rightarrow> BackgroundOptions \<Rightarrow> state \<Rightarrow> unit outcome" where
  "toggleEffect ev t opts s =
     (let s0 = s\<lparr>processorPending := True\<rparr>
      in case videoTrack s0 of
           None \<Rightarrow>
             (case BackgroundProcessorFactory_getProcessor t opts s0 of
                (newProcessorTmp, s1) \<Rightarrow>
                  and_then (toggle ev (Some newProcessorTmp) s1)
                    (\<lambda>_ s2. (Inr (), setTimeout_clearPending s2)))
         | Some tr \<Rightarrow>
             and_then (if \<not> enabled s0 then toggle ev None s0 else (Inr (), s0))
               (\<lambda>_ s1.
                  (case toggleEffect_try ev t opts (getProcessor s1) s1 of
                     (Inl e, s2) \<Rightarrow> (Inr (), setTimeout_clearPending (log (ConsoleError e) s2))
                   | (Inr _, s2) \<Rightarrow> (Inr (), setTimeout_clearPending s2))))"

definition getFaceLandmarksOptions :: "state \<Rightarrow> BackgroundOptions" where
  "getFaceLandmarksOptions s =
     (case getProcessor s of
        None \<Rightarrow> [(''showGlasses'', JBool False), (''showFrench'', JBool False)]
      | Some p \<Rightarrow>
          if ser_type (serialize p) = FACE_LANDMARKS then ser_options (serialize p)
          else [(''showGlasses'', JBool False), (''showFrench'', JBool False)])"

datatype effect = glasses | french

definition effect_key :: "effect \<Rightarrow> string" where
  "effect_key effect = (if effect = glasses then ''showGlasses'' else ''showFrench'')"

text \<open>The object spread with a computed key keeps the position of a key that is there
  and appends one that is not, as \<open>AList.update\<close> does.\<close>

definition toggleFaceLandmarkEffect :: "env \<Rightarrow> effect \<Rightarrow> state \<Rightarrow> unit outcome" where
  "toggleFaceLandmarkEffect ev effect s =
     (let currentOptions = getFaceLandmarksOptions s;
          newOptions = AList.update (effect_key effect)
                         (JBool (\<not> truthy (map_of currentOptions (effect_key effect))))
                         currentOptions
      in if \<not> truthy (map_of newOptions ''showGlasses'') \<and>
            \<not> truthy (map_of newOptions ''showFrench'')
         then clearEffect ev s
         else toggleEffect ev FACE_LANDMARKS newOptions s)"

subsection \<open>Reading a run\<close>

text \<open>The calls made between a state and a later one, and the call that enables a
  camera that is off before anything else is done.\<close>

definition new_events :: "state \<Rightarrow> state \<Rightarrow> event list" where
  "new_events s s' = drop (length (events s)) (events s')"

definition enabling_call :: "state \<Rightarrow> event list" where
  "enabling_call s = (if enabled s then [] else [EnableTrack None])"


text \<open>Concrete runs start from these: every call on the media library succeeds; the
  parent passes \<^verbatim>\<open>onSubmit\<close>; one processor has been constructed before.\<close>

definition all_ok :: env where
  "all_ok = \<lparr>toggle_ok = True, stopProcessor_ok = True, setProcessor_ok = True, update_ok = True\<rparr>"

definition camera_state :: "LocalVideoTrack option \<Rightarrow> bool \<Rightarrow> state" where
  "camera_state tr en = \<lparr>videoTrack = tr, onSubmit = True, enabled = en,
     processorPending = False, timeouts = 0, constructed = 1, events = []\<rparr>"

definition glasses_and_french :: Processor where
  "glasses_and_french = \<lparr>pid = 0, ptype = FACE_LANDMARKS,
     poptions = [(''showGlasses'', JBool True), (''showFrench'', JBool True)]\<rparr>"

definition glasses_only :: Processor where
  "glasses_only = \<lparr>pid = 0, ptype = FACE_LANDMARKS,
     poptions = [(''showGlasses'', JBool True), (''showFrench'', JBool False)]\<rparr>"

definition blur_light :: Processor where
  "blur_light = \<lparr>pid = 0, ptype = BLUR,
     poptions = [(''blurRadius'', JNum (BlurRadius_value LIGHT))]\<rparr>"

section \<open>The JSON text determines the option object\<close>

text \<open>\<^verbatim>\<open>JSON.stringify\<close> is injective on option objects: two objects have the same
  text exactly when they list the same keys with the same values in the same order. The
  proof reads the text back piece by piece.\<close>


lemma hexdigit_inj: "a < 16 \<Longrightarrow> b < 16 \<Longrightarrow> hexdigit a = hexdigit b \<Longrightarrow> a = b"
  by (auto simp: hexdigit_def char_of_eq_iff take_bit_eq_mod split: if_splits)

lemma control_eq:
  assumes "(of_char c :: nat) div 16 = of_char d div 16" "(of_char c :: nat) mod 16 = of_char d mod 16"
  shows "c = d"
proof -
  have "(of_char c :: nat) = of_char d"
    using assms by (metis div_mult_mod_eq)
  then show ?thesis by simp
qed

lemma control_hex_eq:
  assumes "(of_char c :: nat) < 32" "(of_char d :: nat) < 32"
    "hexdigit ((of_char c :: nat) div 16) = hexdigit ((of_char d :: nat) div 16)"
    "hexdigit ((of_char c :: nat) mod 16) = hexdigit ((of_char d :: nat) mod 16)"
  shows "c = d"
proof -
  have "(of_char c :: nat) div 16 < 16" "(of_char d :: nat) div 16 < 16"
    using assms(1,2) by auto
  then have 1: "(of_char c :: nat) div 16 = of_char d div 16"
    using assms(3) hexdigit_inj by blast
  have 2: "(of_char c :: nat) mod 16 = of_char d mod 16"
    using assms(4) hexdigit_inj by (metis mod_less_divisor zero_less_numeral)
  show ?thesis using 1 2 by (rule control_eq)
qed

lemma esc_char_decode:
  assumes "esc_char c @ r = esc_char d @ r'"
  shows "c = d \<and> r = r'"
  using assms
  by (auto simp: esc_char_def dquote_def bslash_def split: if_splits dest: control_hex_eq)

lemma esc_char_hd: "esc_char c \<noteq> [] \<and> hd (esc_char c) \<noteq> dquote"
  by (simp add: esc_char_def dquote_def bslash_def)

lemma esc_decode:
  "esc s @ dquote # r = esc s' @ dquote # r' \<Longrightarrow> s = s' \<and> r = r'"
proof (induction s arbitrary: s')
  case Nil
  show ?case
  proof (cases s')
    case Nil
    with Nil.prems show ?thesis by simp
  next
    case (Cons d ds)
    with Nil.prems have "dquote # r = esc_char d @ (esc ds @ dquote # r')" by simp
    then have "hd (esc_char d) = dquote"
      using esc_char_hd [of d] by (metis hd_append2 list.sel(1))
    then show ?thesis using esc_char_hd [of d] by simp
  qed
next
  case (Cons c cs)
  show ?case
  proof (cases s')
    case Nil
    with Cons.prems have "esc_char c @ (esc cs @ dquote # r) = dquote # r'" by simp
    then have "hd (esc_char c) = dquote"
      using esc_char_hd [of c] by (metis hd_append2 list.sel(1))
    then show ?thesis using esc_char_hd [of c] by simp
  next
    case (Cons d ds)
    with Cons.prems have "esc_char c @ (esc cs @ dquote # r) = esc_char d @ (esc ds @ dquote # r')"
      by simp
    then have "c = d \<and> esc cs @ dquote # r = esc ds @ dquote # r'"
      by (rule esc_char_decode)
    then show ?thesis using Cons.IH [of ds] Cons by simp
  qed
qed

lemma quote_decode: "quote s @ r = quote s' @ r' \<Longrightarrow> s = s' \<and> r = r'"
  using esc_decode [of s r s' r'] by (simp add: quote_def)

lemma digits_all: "c \<in> set (digits n) \<Longrightarrow> is_digit c"
proof (induction n arbitrary: c rule: digits.induct)
  case (1 n)
  show ?case
  proof (cases "n < 10")
    case True
    with "1.prems" show ?thesis by (simp add: digits.simps [of n] is_digit_def)
  next
    case False
    have "n mod 10 < 10" by simp
    then have "is_digit (char_of (48 + n mod 10))"
      by (simp add: is_digit_def take_bit_eq_mod)
    with False "1.prems" "1.IH" show ?thesis
      by (auto simp: digits.simps [of n])
  qed
qed

lemma digits_nonempty: "digits n \<noteq> []"
  by (simp add: digits.simps [of n])

lemma digits_value_digits: "digits_value (digits n) = n"
proof (induction n rule: digits.induct)
  case (1 n)
  show ?case
  proof (cases "n < 10")
    case True
    then show ?thesis by (simp add: digits.simps [of n] digits_value_def take_bit_eq_mod)
  next
    case False
    have "n mod 10 < 10" by simp
    then have "(of_char (char_of (48 + n mod 10) :: char) :: nat) = 48 + n mod 10"
      by (simp add: take_bit_eq_mod)
    with False "1.IH" show ?thesis
      by (simp add: digits.simps [of n] digits_value_def)
  qed
qed

lemma digits_decode:
  assumes "digits n @ r = digits m @ r'"
    and "r = [] \<or> \<not> is_digit (hd r)" and "r' = [] \<or> \<not> is_digit (hd r')"
  shows "n = m \<and> r = r'"
proof -
  have tw: "takeWhile is_digit (digits k @ t) = digits k" if "t = [] \<or> \<not> is_digit (hd t)" for k t
  proof -
    have "takeWhile is_digit t = []" using that by (cases t) auto
    then show ?thesis by (simp add: takeWhile_append2 digits_all)
  qed
  have "digits n = digits m"
    using tw [of r n] tw [of r' m] assms by simp
  then have "n = m" by (metis digits_value_digits)
  with assms(1) show ?thesis by simp
qed


lemma digits_hd: "is_digit (hd (digits n))"
  using digits_all [of "hd (digits n)" n] digits_nonempty [of n] by simp

lemma value_nonempty: "stringify_value v \<noteq> []"
  by (cases v) (simp_all add: digits_nonempty quote_def)

lemma value_decode:
  assumes "stringify_value v @ r = stringify_value w @ r'" "terminated r" "terminated r'"
  shows "v = w \<and> r = r'"
proof -
  have "hd (stringify_value v @ r) = hd (stringify_value w @ r')"
    using assms(1) by simp
  then have h: "hd (stringify_value v) = hd (stringify_value w)"
    by (simp add: value_nonempty)
  have dq: "\<not> is_digit dquote" "\<not> is_digit CHR ''t''" "\<not> is_digit CHR ''f''"
    by (simp_all add: is_digit_def dquote_def)
  show ?thesis
  proof (cases v)
    case (JNum n)
    show ?thesis
    proof (cases w)
      case (JNum m)
      with \<open>v = JNum n\<close> assms show ?thesis
        using digits_decode [of n r m r'] by (simp add: terminated_def)
    next
      case (JStr t)
      with \<open>v = JNum n\<close> h dq digits_hd [of n] show ?thesis
        by (simp add: quote_def)
    next
      case (JBool b)
      with \<open>v = JNum n\<close> h dq digits_hd [of n] show ?thesis
        by (cases b) (simp_all add: quote_def)
    qed
  next
    case (JStr s)
    show ?thesis
    proof (cases w)
      case (JNum m)
      with \<open>v = JStr s\<close> h dq digits_hd [of m] show ?thesis
        by (simp add: quote_def)
    next
      case (JStr t)
      with \<open>v = JStr s\<close> assms(1) show ?thesis
        using quote_decode [of s r t r'] by simp
    next
      case (JBool b)
      with \<open>v = JStr s\<close> h show ?thesis
        by (cases b) (simp_all add: quote_def dquote_def)
    qed
  next
    case (JBool b)
    show ?thesis
    proof (cases w)
      case (JNum m)
      with \<open>v = JBool b\<close> h dq digits_hd [of m] show ?thesis
        by (cases b) (simp_all add: quote_def)
    next
      case (JStr t)
      with \<open>v = JBool b\<close> h show ?thesis
        by (cases b) (simp_all add: quote_def dquote_def)
    next
      case (JBool b')
      with \<open>v = JBool b\<close> assms(1) show ?thesis
        by (cases b; cases b') simp_all
    qed
  qed
qed

lemma rest_terminated: "terminated (stringify_rest es)"
  by (cases es) (simp_all add: terminated_def is_digit_def)

lemma entry_decode:
  assumes "stringify_entry e @ r = stringify_entry e' @ r'" "terminated r" "terminated r'"
  shows "e = e' \<and> r = r'"
proof -
  from assms(1) have "quote (fst e) @ (CHR '':'' # stringify_value (snd e) @ r)
      = quote (fst e') @ (CHR '':'' # stringify_value (snd e') @ r')"
    by (simp add: stringify_entry_def)
  then have k: "fst e = fst e'" and "stringify_value (snd e) @ r = stringify_value (snd e') @ r'"
    using quote_decode by blast+
  then have "snd e = snd e' \<and> r = r'"
    using value_decode assms(2,3) by blast
  with k show ?thesis by (simp add: prod_eq_iff)
qed

lemma rest_inj: "stringify_rest es = stringify_rest es' \<Longrightarrow> es = es'"
proof (induction es arbitrary: es')
  case Nil
  then show ?case by (cases es') simp_all
next
  case (Cons e es)
  show ?case
  proof (cases es')
    case Nil
    with Cons.prems show ?thesis by simp
  next
    case (Cons e' fs)
    with Cons.prems have "stringify_entry e @ stringify_rest es = stringify_entry e' @ stringify_rest fs"
      by simp
    then have "e = e' \<and> stringify_rest es = stringify_rest fs"
      using entry_decode rest_terminated by blast
    with Cons.IH [of fs] Cons show ?thesis by simp
  qed
qed

lemma entry_nonempty: "stringify_entry e \<noteq> []"
  by (simp add: stringify_entry_def quote_def)

lemma JSON_stringify_inj: "JSON_stringify a = JSON_stringify b \<longleftrightarrow> a = b"
proof
  assume eq: "JSON_stringify a = JSON_stringify b"
  show "a = b"
  proof (cases a)
    case Nil
    show ?thesis
    proof (cases b)
      case Nil
      with \<open>a = []\<close> show ?thesis by simp
    next
      case (Cons e es)
      with \<open>a = []\<close> eq have "stringify_entry e @ stringify_rest es = ''}''" by simp
      then have "stringify_entry e = [] \<or> stringify_rest es = []"
        by (metis append_eq_Cons_conv append_is_Nil_conv)
      then show ?thesis using entry_nonempty [of e] rest_terminated [of es]
        by (auto simp: terminated_def)
    qed
  next
    case (Cons e es)
    show ?thesis
    proof (cases b)
      case Nil
      with \<open>a = e # es\<close> eq have "stringify_entry e @ stringify_rest es = ''}''" by simp
      then have "stringify_entry e = [] \<or> stringify_rest es = []"
        by (metis append_eq_Cons_conv append_is_Nil_conv)
      then show ?thesis using entry_nonempty [of e] rest_terminated [of es]
        by (auto simp: terminated_def)
    next
      case (Cons e' fs)
      with \<open>a = e # es\<close> eq have "stringify_entry e @ stringify_rest es = stringify_entry e' @ stringify_rest fs"
        by simp
      then have "e = e' \<and> stringify_rest es = stringify_rest fs"
        using entry_decode rest_terminated by blast
      with rest_inj [of es fs] Cons \<open>a = e # es\<close> show ?thesis by simp
    qed
  qed
qed simp



section \<open>What each branch of \<^verbatim>\<open>toggleEffect\<close> does\<close>

lemma isSelected_eq:
  "isSelected t opts s \<longleftrightarrow> (\<exists>p. getProcessor s = Some p \<and> ptype p = t \<and> poptions p = opts)"
  by (simp add: isSelected_def serialize_def JSON_stringify_inj split: option.splits)

lemmas component_defs =
  toggleEffect_def toggleEffect_try_def clearEffect_def toggle_def
  videoTrack_stopProcessor_def videoTrack_setProcessor_def update_options_def
  BackgroundProcessorFactory_getProcessor_def call_onSubmit_def setTimeout_clearPending_def
  and_then_def log_def getProcessor_def serialize_def Let_def

lemmas example_defs =
  all_ok_def camera_state_def glasses_and_french_def glasses_only_def blur_light_def

text \<open>No track: the processor is constructed and handed to the enabling call; the
  pending flag is reset only when that call succeeds.\<close>

lemma toggleEffect_absent:
  assumes "videoTrack s = None"
  shows "toggleEffect ev t opts s =
     (let np = \<lparr>pid = constructed s, ptype = t, poptions = opts\<rparr>
      in if toggle_ok ev
      then (Inr (), s\<lparr>processorPending := True, timeouts := Suc (timeouts s),
             constructed := Suc (constructed s), enabled := True,
             videoTrack := Some \<lparr>processor = Some np\<rparr>,
             events := events s @ [Construct np, EnableTrack (Some np)]\<rparr>)
      else (Inl TrackUnavailable, s\<lparr>processorPending := True,
             constructed := Suc (constructed s),
             events := events s @ [Construct np, EnableTrack (Some np)]\<rparr>))"
  using assms by (simp add: component_defs)

text \<open>A track that is off and cannot be enabled: the call is rejected before the
  \<^verbatim>\<open>try\<close> block is entered.\<close>

lemma toggleEffect_enable_fails:
  assumes "videoTrack s = Some tr" "\<not> enabled s" "\<not> toggle_ok ev"
  shows "toggleEffect ev t opts s =
     (Inl TrackUnavailable, s\<lparr>processorPending := True, events := events s @ [EnableTrack None]\<rparr>)"
  using assms by (simp add: component_defs)

text \<open>The three branches of the \<^verbatim>\<open>try\<close> block, on a track that is enabled or can be.\<close>

lemma toggleEffect_off:
  assumes "videoTrack s = Some tr" "processor tr = Some p" "ptype p = t" "poptions p = opts"
    "enabled s \<or> toggle_ok ev"
  shows "toggleEffect ev t opts s =
     (Inr (),
      if stopProcessor_ok ev
      then s\<lparr>processorPending := True, timeouts := Suc (timeouts s), enabled := True,
             videoTrack := Some (tr\<lparr>processor := None\<rparr>),
             events := events s @ enabling_call s @ StopProcessor #
                (if onSubmit s then [Submit None] else [])\<rparr>
      else s\<lparr>processorPending := True, timeouts := Suc (timeouts s), enabled := True,
             events := events s @ enabling_call s @
                [StopProcessor, ConsoleError ProcessorFailure]\<rparr>)"
  using assms
  by (cases s; cases "enabled s")
     (auto simp add: component_defs isSelected_eq enabling_call_def split: option.splits)

lemma toggleEffect_apply:
  assumes "videoTrack s = Some tr" "case processor tr of None \<Rightarrow> True | Some p \<Rightarrow> ptype p \<noteq> t"
    "enabled s \<or> toggle_ok ev"
  shows "toggleEffect ev t opts s =
     (let np = \<lparr>pid = constructed s, ptype = t, poptions = opts\<rparr>
      in (Inr (),
      if setProcessor_ok ev
      then s\<lparr>processorPending := True, timeouts := Suc (timeouts s), enabled := True,
             constructed := Suc (constructed s),
             videoTrack := Some (tr\<lparr>processor := Some np\<rparr>),
             events := events s @ enabling_call s @ Construct np # SetProcessor np #
                (if onSubmit s then [Submit (Some np)] else [])\<rparr>
      else s\<lparr>processorPending := True, timeouts := Suc (timeouts s), enabled := True,
             constructed := Suc (constructed s),
             events := events s @ enabling_call s @
                [Construct np, SetProcessor np, ConsoleError ProcessorFailure]\<rparr>))"
  using assms
  by (cases s; cases "enabled s")
     (auto simp add: component_defs isSelected_eq enabling_call_def split: option.splits)

lemma toggleEffect_update:
  assumes "videoTrack s = Some tr" "processor tr = Some p" "ptype p = t" "poptions p \<noteq> opts"
    "enabled s \<or> toggle_ok ev"
  shows "toggleEffect ev t opts s =
     (Inr (),
      if update_ok ev
      then s\<lparr>processorPending := True, timeouts := Suc (timeouts s), enabled := True,
             videoTrack := Some (tr\<lparr>processor := Some (p\<lparr>poptions := opts\<rparr>)\<rparr>),
             events := events s @ enabling_call s @ Update (pid p) opts #
                (if onSubmit s then [Submit (Some (p\<lparr>poptions := opts\<rparr>))] else [])\<rparr>
      else s\<lparr>processorPending := True, timeouts := Suc (timeouts s), enabled := True,
             events := events s @ enabling_call s @
                [Update (pid p) opts, ConsoleError ProcessorFailure]\<rparr>)"
  using assms
  by (cases s; cases "enabled s")
     (auto simp add: component_defs isSelected_eq enabling_call_def split: option.splits)

section \<open>Further facts about runs\<close>

text \<open>What a run adds to the log, the first successful application of an effect, the
  steps of the face-landmark toggle, and \<^verbatim>\<open>clearEffect\<close> on an existing track.\<close>

lemma new_events_append: "new_events s (s'\<lparr>events := events s @ evs\<rparr>) = evs"
  by (simp add: new_events_def)

lemma toggleEffect_first_apply:
  assumes "toggle_ok ev" "setProcessor_ok ev"
    "case getProcessor s of None \<Rightarrow> True | Some q \<Rightarrow> ptype q \<noteq> t"
  shows "\<exists>tr'. videoTrack (snd (toggleEffect ev t opts s)) = Some tr' \<and>
          processor tr' = Some \<lparr>pid = constructed s, ptype = t, poptions = opts\<rparr> \<and>
          enabled (snd (toggleEffect ev t opts s)) \<and>
          constructed (snd (toggleEffect ev t opts s)) = Suc (constructed s)"
proof (cases "videoTrack s")
  case None
  with assms show ?thesis by (simp add: toggleEffect_absent Let_def)
next
  case (Some tr)
  with assms(3) have "case processor tr of None \<Rightarrow> True | Some p \<Rightarrow> ptype p \<noteq> t"
    by (simp add: getProcessor_def)
  with Some assms show ?thesis
    using toggleEffect_apply [of s tr t ev opts] by (simp add: Let_def)
qed

lemma toggleEffect_enables_first:
  assumes "videoTrack s = Some tr" "\<not> enabled s"
  shows "\<exists>evs. new_events s (snd (toggleEffect ev t opts s)) = EnableTrack None # evs"
proof (cases "toggle_ok ev")
  case False
  with assms show ?thesis by (simp add: new_events_append toggleEffect_enable_fails)
next
  case True
  show ?thesis
  proof (cases "case processor tr of None \<Rightarrow> True | Some p \<Rightarrow> ptype p \<noteq> t")
    case True
    with assms \<open>toggle_ok ev\<close> show ?thesis
      using toggleEffect_apply [where s = s and tr = tr and t = t and ev = ev and opts = opts]
      by (simp add: new_events_append Let_def enabling_call_def)
  next
    case False
    then obtain p where p: "processor tr = Some p" "ptype p = t"
      by (auto split: option.splits)
    show ?thesis
    proof (cases "poptions p = opts")
      case True
      with assms p \<open>toggle_ok ev\<close> show ?thesis
        using toggleEffect_off [where s = s and tr = tr and p = p and t = t and ev = ev and opts = opts]
        by (simp add: new_events_append enabling_call_def)
    next
      case False
      with assms p \<open>toggle_ok ev\<close> show ?thesis
        using toggleEffect_update [where s = s and tr = tr and p = p and t = t and ev = ev and opts = opts]
        by (simp add: new_events_append enabling_call_def)
    qed
  qed
qed

lemma toggleEffect_reports:
  assumes "videoTrack s = Some tr" "onSubmit s" "enabled s \<or> toggle_ok ev"
    "stopProcessor_ok ev" "setProcessor_ok ev" "update_ok ev"
  shows "fst (toggleEffect ev t opts s) = Inr () \<and>
         (\<exists>evs. new_events s (snd (toggleEffect ev t opts s)) =
                  evs @ [Submit (getProcessor (snd (toggleEffect ev t opts s)))])"
proof (cases "case processor tr of None \<Rightarrow> True | Some p \<Rightarrow> ptype p \<noteq> t")
  case True
  let ?np = "\<lparr>pid = constructed s, ptype = t, poptions = opts\<rparr>"
  from True assms have eq: "toggleEffect ev t opts s =
     (Inr (), s\<lparr>processorPending := True, timeouts := Suc (timeouts s), enabled := True,
             constructed := Suc (constructed s),
             videoTrack := Some (tr\<lparr>processor := Some ?np\<rparr>),
             events := events s @ (enabling_call s @ [Construct ?np, SetProcessor ?np]) @
                [Submit (Some ?np)]\<rparr>)"
    using toggleEffect_apply [where s = s and tr = tr and t = t and ev = ev and opts = opts]
    by (simp add: Let_def)
  show ?thesis
    unfolding eq by (simp add: new_events_append getProcessor_def del: append_assoc)
next
  case False
  then obtain p where p: "processor tr = Some p" "ptype p = t"
    by (auto split: option.splits)
  show ?thesis
  proof (cases "poptions p = opts")
    case True
    with assms p have eq: "toggleEffect ev t opts s =
     (Inr (), s\<lparr>processorPending := True, timeouts := Suc (timeouts s), enabled := True,
             videoTrack := Some (tr\<lparr>processor := None\<rparr>),
             events := events s @ (enabling_call s @ [StopProcessor]) @ [Submit None]\<rparr>)"
      using toggleEffect_off [where s = s and tr = tr and p = p and t = t and ev = ev and opts = opts]
      by simp
    show ?thesis
      unfolding eq by (simp add: new_events_append getProcessor_def del: append_assoc)
  next
    case False
    with assms p have eq: "toggleEffect ev t opts s =
     (Inr (), s\<lparr>processorPending := True, timeouts := Suc (timeouts s), enabled := True,
             videoTrack := Some (tr\<lparr>processor := Some (p\<lparr>poptions := opts\<rparr>)\<rparr>),
             events := events s @ (enabling_call s @ [Update (pid p) opts]) @
                [Submit (Some (p\<lparr>poptions := opts\<rparr>))]\<rparr>)"
      using toggleEffect_update [where s = s and tr = tr and p = p and t = t and ev = ev and opts = opts]
      by simp
    show ?thesis
      unfolding eq by (simp add: new_events_append getProcessor_def del: append_assoc)
  qed
qed

lemmas faceLandmark_defs =
  toggleFaceLandmarkEffect_def getFaceLandmarksOptions_def effect_key_def

lemma toggleFaceLandmarkEffect_glasses_only:
  assumes "videoTrack s = Some tr" "processor tr = Some p" "ptype p = FACE_LANDMARKS"
    "poptions p = [(''showGlasses'', JBool True), (''showFrench'', JBool False)]"
  shows "toggleFaceLandmarkEffect ev french s =
         toggleEffect ev FACE_LANDMARKS [(''showGlasses'', JBool True), (''showFrench'', JBool True)] s"
  using assms by (simp add: faceLandmark_defs getProcessor_def serialize_def Let_def)

lemma toggleFaceLandmarkEffect_both:
  assumes "videoTrack s = Some tr" "processor tr = Some p" "ptype p = FACE_LANDMARKS"
    "poptions p = [(''showGlasses'', JBool True), (''showFrench'', JBool True)]"
  shows "toggleFaceLandmarkEffect ev glasses s =
         toggleEffect ev FACE_LANDMARKS [(''showGlasses'', JBool False), (''showFrench'', JBool True)] s"
  using assms by (simp add: faceLandmark_defs getProcessor_def serialize_def Let_def)

lemma toggleFaceLandmarkEffect_french_only:
  assumes "videoTrack s = Some tr" "processor tr = Some p" "ptype p = FACE_LANDMARKS"
    "poptions p = [(''showGlasses'', JBool False), (''showFrench'', JBool True)]"
  shows "toggleFaceLandmarkEffect ev french s = clearEffect ev s"
  using assms by (simp add: faceLandmark_defs getProcessor_def serialize_def Let_def)

lemma clearEffect_present:
  assumes "videoTrack s = Some tr"
  shows "clearEffect ev s =
     (case processor tr of
        None \<Rightarrow> (Inr (), s\<lparr>events := events s @ StopProcessor #
                                (if onSubmit s then [Submit None] else [])\<rparr>)
      | Some p \<Rightarrow>
          if stopProcessor_ok ev
          then (Inr (), s\<lparr>videoTrack := Some (tr\<lparr>processor := None\<rparr>),
                          events := events s @ StopProcessor #
                                (if onSubmit s then [Submit None] else [])\<rparr>)
          else (Inl ProcessorFailure, s\<lparr>events := events s @ [StopProcessor]\<rparr>))"
  using assms by (cases s) (simp add: component_defs split: option.splits)

section \<open>The claims\<close>

text \<open>
  C1, as amended. \<^verbatim>\<open>isSelected(type, options)\<close> returns true exactly when the track runs
  a processor whose serialized kind is \<^verbatim>\<open>type\<close> and whose serialized options list the
  same properties with the same values in the same key order as \<^verbatim>\<open>options\<close>: that is
  what equal \<^verbatim>\<open>JSON.stringify\<close> texts amount to. The comparison is by value, so the
  identity of the processor and of the objects plays no part; it is not independent of
  the key order.
\<close>

theorem isSelected_same_entries_in_order:
  "isSelected t opts s \<longleftrightarrow>
     (\<exists>p. getProcessor s = Some p \<and> ser_type (serialize p) = t \<and>
          ser_options (serialize p) = opts)"
  by (simp add: isSelected_def JSON_stringify_inj split: option.splits)

theorem isSelected_same_entries_in_order_witness:
  "isSelected BLUR [(''blurRadius'', JNum 5)] (camera_state (Some \<lparr>processor = Some blur_light\<rparr>) True)"
  using isSelected_same_entries_in_order
    [of BLUR "[(''blurRadius'', JNum 5)]" "camera_state (Some \<lparr>processor = Some blur_light\<rparr>) True"]
  by (simp add: example_defs getProcessor_def serialize_def)

text \<open>
  C1 as stated fails: the track runs a face-landmark processor with both flags set, the
  options asked about hold the same two flags with the keys in the other order, the two
  objects are deep-equal, and \<^verbatim>\<open>isSelected\<close> returns false.
\<close>

theorem isSelected_key_order_counterexample:
  "getProcessor (camera_state (Some \<lparr>processor = Some glasses_and_french\<rparr>) True)
     = Some glasses_and_french \<and>
   ser_type (serialize glasses_and_french) = FACE_LANDMARKS \<and>
   spec_deep_equal (ser_options (serialize glasses_and_french))
     [(''showFrench'', JBool True), (''showGlasses'', JBool True)] \<and>
   \<not> isSelected FACE_LANDMARKS [(''showFrench'', JBool True), (''showGlasses'', JBool True)]
       (camera_state (Some \<lparr>processor = Some glasses_and_french\<rparr>) True)"
  by (simp add: example_defs getProcessor_def serialize_def spec_deep_equal_def isSelected_eq)

text \<open>
  C2, as amended. When the track runs a processor whose kind is that of the descriptor
  and whose options list the same properties with the same values in the same key order,
  \<^verbatim>\<open>toggleEffect\<close> stops it: the call resolves, the track runs no processor afterwards,
  and the calls made are the stop and the report of \<^verbatim>\<open>undefined\<close> to the parent
  (after the enabling call where the camera was off), given that the calls on the track
  succeed. And from any state where the descriptor is not the selected one, two
  \<^verbatim>\<open>toggleEffect\<close> calls with it in a row leave the track with no processor.
\<close>

theorem toggleEffect_toggle_off:
  "((enabled s \<or> toggle_ok ev) \<and> stopProcessor_ok ev \<and>
    videoTrack s = Some tr \<and> processor tr = Some p \<and> ptype p = t \<and> poptions p = opts
    \<longrightarrow> fst (toggleEffect ev t opts s) = Inr () \<and>
        getProcessor (snd (toggleEffect ev t opts s)) = None \<and>
        new_events s (snd (toggleEffect ev t opts s)) =
          enabling_call s @ StopProcessor # (if onSubmit s then [Submit None] else [])) \<and>
   (toggle_ok eva \<and> setProcessor_ok eva \<and> update_ok eva \<and> stopProcessor_ok evb \<and>
    \<not> isSelected t' opts' s'
    \<longrightarrow> getProcessor (snd (toggleEffect evb t' opts' (snd (toggleEffect eva t' opts' s')))) = None)"
proof (intro conjI impI)
  assume h: "(enabled s \<or> toggle_ok ev) \<and> stopProcessor_ok ev \<and>
    videoTrack s = Some tr \<and> processor tr = Some p \<and> ptype p = t \<and> poptions p = opts"
  then have eq: "toggleEffect ev t opts s =
     (Inr (), s\<lparr>processorPending := True, timeouts := Suc (timeouts s), enabled := True,
             videoTrack := Some (tr\<lparr>processor := None\<rparr>),
             events := events s @ enabling_call s @ StopProcessor #
                (if onSubmit s then [Submit None] else [])\<rparr>)"
    using toggleEffect_off [of s tr p t opts ev] by simp
  show "fst (toggleEffect ev t opts s) = Inr ()" by (simp add: eq)
  show "getProcessor (snd (toggleEffect ev t opts s)) = None"
    by (simp add: eq getProcessor_def)
  show "new_events s (snd (toggleEffect ev t opts s)) =
          enabling_call s @ StopProcessor # (if onSubmit s then [Submit None] else [])"
    by (simp add: new_events_append eq)
next
  assume h: "toggle_ok eva \<and> setProcessor_ok eva \<and> update_ok eva \<and> stopProcessor_ok evb \<and>
    \<not> isSelected t' opts' s'"
  let ?s1 = "snd (toggleEffect eva t' opts' s')"
  have "\<exists>tr1 p1. videoTrack ?s1 = Some tr1 \<and> processor tr1 = Some p1 \<and> ptype p1 = t' \<and>
          poptions p1 = opts' \<and> enabled ?s1"
  proof (cases "videoTrack s'")
    case None
    with h show ?thesis by (simp add: toggleEffect_absent Let_def)
  next
    case (Some tr)
    show ?thesis
    proof (cases "case processor tr of None \<Rightarrow> True | Some p \<Rightarrow> ptype p \<noteq> t'")
      case True
      with Some h show ?thesis
        using toggleEffect_apply [of s' tr t' eva opts'] by (simp add: Let_def)
    next
      case False
      then obtain p where p: "processor tr = Some p" "ptype p = t'"
        by (auto split: option.splits)
      with Some h have "poptions p \<noteq> opts'"
        by (simp add: isSelected_eq getProcessor_def)
      with Some p h show ?thesis
        using toggleEffect_update [of s' tr p t' opts' eva] by simp
    qed
  qed
  then obtain tr1 p1 where "videoTrack ?s1 = Some tr1" "processor tr1 = Some p1" "ptype p1 = t'"
          "poptions p1 = opts'" "enabled ?s1" by blast
  with h show "getProcessor (snd (toggleEffect evb t' opts' ?s1)) = None"
    using toggleEffect_off [of ?s1 tr1 p1 t' opts' evb] by (simp add: getProcessor_def)
qed

theorem toggleEffect_toggle_off_witness:
  "fst (toggleEffect all_ok BLUR [(''blurRadius'', JNum 5)]
         (camera_state (Some \<lparr>processor = Some blur_light\<rparr>) False)) = Inr () \<and>
   getProcessor (snd (toggleEffect all_ok BLUR [(''blurRadius'', JNum 5)]
         (camera_state (Some \<lparr>processor = Some blur_light\<rparr>) False))) = None \<and>
   new_events (camera_state (Some \<lparr>processor = Some blur_light\<rparr>) False)
      (snd (toggleEffect all_ok BLUR [(''blurRadius'', JNum 5)]
         (camera_state (Some \<lparr>processor = Some blur_light\<rparr>) False)))
     = [EnableTrack None, StopProcessor, Submit None] \<and>
   \<not> isSelected VIRTUAL [(''imagePath'', JStr ''/assets/backgrounds/1.jpg'')]
        (camera_state (Some \<lparr>processor = Some blur_light\<rparr>) True) \<and>
   getProcessor (snd (toggleEffect all_ok VIRTUAL [(''imagePath'', JStr ''/assets/backgrounds/1.jpg'')]
      (snd (toggleEffect all_ok VIRTUAL [(''imagePath'', JStr ''/assets/backgrounds/1.jpg'')]
         (camera_state (Some \<lparr>processor = Some blur_light\<rparr>) True))))) = None"
  using toggleEffect_toggle_off
    [where s = "camera_state (Some \<lparr>processor = Some blur_light\<rparr>) False" and ev = all_ok
       and tr = "\<lparr>processor = Some blur_light\<rparr>" and p = blur_light and t = BLUR
       and opts = "[(''blurRadius'', JNum 5)]" and eva = all_ok and evb = all_ok
       and t' = VIRTUAL and opts' = "[(''imagePath'', JStr ''/assets/backgrounds/1.jpg'')]"
       and s' = "camera_state (Some \<lparr>processor = Some blur_light\<rparr>) True"]
  by (simp add: example_defs enabling_call_def isSelected_eq getProcessor_def)

text \<open>
  C2 as stated fails. The track runs a face-landmark processor with both flags set;
  the descriptor toggled has the same flags with the keys in the other order, so the two
  are deep-equal; the processor is not cleared but updated, and stays active. And two
  toggles in a row of the descriptor that is active at the start leave it active, on a
  newly constructed processor.
\<close>

theorem toggleEffect_key_order_counterexample:
  "spec_deep_equal (poptions glasses_and_french)
     [(''showFrench'', JBool True), (''showGlasses'', JBool True)] \<and>
   getProcessor (snd (toggleEffect all_ok FACE_LANDMARKS
        [(''showFrench'', JBool True), (''showGlasses'', JBool True)]
        (camera_state (Some \<lparr>processor = Some glasses_and_french\<rparr>) True)))
     = Some (glasses_and_french\<lparr>poptions :=
          [(''showFrench'', JBool True), (''showGlasses'', JBool True)]\<rparr>) \<and>
   getProcessor (snd (toggleEffect all_ok BLUR [(''blurRadius'', JNum 5)]
      (snd (toggleEffect all_ok BLUR [(''blurRadius'', JNum 5)]
        (camera_state (Some \<lparr>processor = Some blur_light\<rparr>) True)))))
     = Some \<lparr>pid = 1, ptype = BLUR, poptions = [(''blurRadius'', JNum 5)]\<rparr>"
  by (simp add: example_defs spec_deep_equal_def component_defs isSelected_eq)

text \<open>
  C3. When \<^verbatim>\<open>toggleEffect\<close> is called with the kind of the active processor and
  other options, the processor the track runs is the same instance with the new options:
  the factory constructs nothing, and the only calls are \<^verbatim>\<open>update(options)\<close> and the
  report to the parent (after the enabling call where the camera was off): no stop, no
  \<^verbatim>\<open>setProcessor\<close>. Across two calls with one kind and two different options,
  started where no processor of that kind is active, exactly one processor is
  constructed, and it ends with the second options.
\<close>

theorem toggleEffect_update_in_place:
  "(videoTrack s = Some tr \<and> processor tr = Some p \<and> ptype p = t \<and> poptions p \<noteq> opts \<and>
    (enabled s \<or> toggle_ok ev) \<and> update_ok ev
    \<longrightarrow> getProcessor (snd (toggleEffect ev t opts s)) = Some (p\<lparr>poptions := opts\<rparr>) \<and>
        constructed (snd (toggleEffect ev t opts s)) = constructed s \<and>
        new_events s (snd (toggleEffect ev t opts s)) =
          enabling_call s @ Update (pid p) opts #
            (if onSubmit s then [Submit (Some (p\<lparr>poptions := opts\<rparr>))] else [])) \<and>
   (toggle_ok eva \<and> setProcessor_ok eva \<and> update_ok evb \<and> optsa \<noteq> optsb \<and>
    (case getProcessor s' of None \<Rightarrow> True | Some q \<Rightarrow> ptype q \<noteq> t')
    \<longrightarrow> getProcessor (snd (toggleEffect evb t' optsb (snd (toggleEffect eva t' optsa s'))))
          = Some \<lparr>pid = constructed s', ptype = t', poptions = optsb\<rparr> \<and>
        constructed (snd (toggleEffect evb t' optsb (snd (toggleEffect eva t' optsa s'))))
          = Suc (constructed s'))"
proof (intro conjI impI)
  assume h: "videoTrack s = Some tr \<and> processor tr = Some p \<and> ptype p = t \<and> poptions p \<noteq> opts \<and>
    (enabled s \<or> toggle_ok ev) \<and> update_ok ev"
  then have eq: "toggleEffect ev t opts s =
     (Inr (), s\<lparr>processorPending := True, timeouts := Suc (timeouts s), enabled := True,
             videoTrack := Some (tr\<lparr>processor := Some (p\<lparr>poptions := opts\<rparr>)\<rparr>),
             events := events s @ enabling_call s @ Update (pid p) opts #
                (if onSubmit s then [Submit (Some (p\<lparr>poptions := opts\<rparr>))] else [])\<rparr>)"
    using toggleEffect_update [of s tr p t opts ev] by simp
  show "getProcessor (snd (toggleEffect ev t opts s)) = Some (p\<lparr>poptions := opts\<rparr>)"
    by (simp add: eq getProcessor_def)
  show "constructed (snd (toggleEffect ev t opts s)) = constructed s"
    by (simp add: eq)
  show "new_events s (snd (toggleEffect ev t opts s)) =
          enabling_call s @ Update (pid p) opts #
            (if onSubmit s then [Submit (Some (p\<lparr>poptions := opts\<rparr>))] else [])"
    by (simp add: new_events_append eq)
next
  assume h: "toggle_ok eva \<and> setProcessor_ok eva \<and> update_ok evb \<and> optsa \<noteq> optsb \<and>
    (case getProcessor s' of None \<Rightarrow> True | Some q \<Rightarrow> ptype q \<noteq> t')"
  let ?s1 = "snd (toggleEffect eva t' optsa s')"
  let ?np = "\<lparr>pid = constructed s', ptype = t', poptions = optsa\<rparr>"
  from h obtain tr1 where s1: "videoTrack ?s1 = Some tr1" "processor tr1 = Some ?np"
      "enabled ?s1" "constructed ?s1 = Suc (constructed s')"
    using toggleEffect_first_apply [where ev = eva and s = s' and t = t' and opts = optsa] by auto
  have eq: "toggleEffect evb t' optsb ?s1 =
     (Inr (), ?s1\<lparr>processorPending := True, timeouts := Suc (timeouts ?s1), enabled := True,
             videoTrack := Some (tr1\<lparr>processor := Some (?np\<lparr>poptions := optsb\<rparr>)\<rparr>),
             events := events ?s1 @ enabling_call ?s1 @ Update (pid ?np) optsb #
                (if onSubmit ?s1 then [Submit (Some (?np\<lparr>poptions := optsb\<rparr>))] else [])\<rparr>)"
    using toggleEffect_update [of ?s1 tr1 ?np t' optsb evb] s1 h by simp
  show "getProcessor (snd (toggleEffect evb t' optsb ?s1))
          = Some \<lparr>pid = constructed s', ptype = t', poptions = optsb\<rparr>"
    by (simp add: eq getProcessor_def)
  show "constructed (snd (toggleEffect evb t' optsb ?s1)) = Suc (constructed s')"
    by (simp add: eq s1)
qed

theorem toggleEffect_update_in_place_witness:
  "getProcessor (snd (toggleEffect all_ok BLUR [(''blurRadius'', JNum 10)]
      (camera_state (Some \<lparr>processor = Some blur_light\<rparr>) True)))
     = Some (blur_light\<lparr>poptions := [(''blurRadius'', JNum 10)]\<rparr>) \<and>
   constructed (snd (toggleEffect all_ok BLUR [(''blurRadius'', JNum 10)]
      (camera_state (Some \<lparr>processor = Some blur_light\<rparr>) True))) = 1 \<and>
   new_events (camera_state (Some \<lparr>processor = Some blur_light\<rparr>) True)
      (snd (toggleEffect all_ok BLUR [(''blurRadius'', JNum 10)]
        (camera_state (Some \<lparr>processor = Some blur_light\<rparr>) True)))
     = [Update 0 [(''blurRadius'', JNum 10)],
        Submit (Some (blur_light\<lparr>poptions := [(''blurRadius'', JNum 10)]\<rparr>))] \<and>
   getProcessor (snd (toggleEffect all_ok BLUR [(''blurRadius'', JNum 10)]
      (snd (toggleEffect all_ok BLUR [(''blurRadius'', JNum 5)] (camera_state None False)))))
     = Some \<lparr>pid = 1, ptype = BLUR, poptions = [(''blurRadius'', JNum 10)]\<rparr> \<and>
   constructed (snd (toggleEffect all_ok BLUR [(''blurRadius'', JNum 10)]
      (snd (toggleEffect all_ok BLUR [(''blurRadius'', JNum 5)] (camera_state None False)))))
     = 2"
  using toggleEffect_update_in_place
    [where s = "camera_state (Some \<lparr>processor = Some blur_light\<rparr>) True"
       and tr = "\<lparr>processor = Some blur_light\<rparr>" and p = blur_light and t = BLUR
       and opts = "[(''blurRadius'', JNum 10)]" and ev = all_ok
       and eva = all_ok and evb = all_ok and optsa = "[(''blurRadius'', JNum 5)]"
       and optsb = "[(''blurRadius'', JNum 10)]" and s' = "camera_state None False" and t' = BLUR]
  by (simp add: example_defs enabling_call_def getProcessor_def)




text \<open>
  C5, as amended. When no video track exists, \<^verbatim>\<open>toggleEffect\<close> constructs the processor
  and passes it into the track-enabling call, and makes no other call: either that call
  succeeds and the camera is enabled on a track that runs the new processor, or it fails
  and the camera is as it was, with no track. When a track exists and the camera is off,
  the first call is the enabling call without a processor; whatever is done for the
  descriptor comes after it.
\<close>

theorem toggleEffect_no_track_one_step:
  "(videoTrack s = None
    \<longrightarrow> new_events s (snd (toggleEffect ev t opts s)) =
          [Construct \<lparr>pid = constructed s, ptype = t, poptions = opts\<rparr>,
           EnableTrack (Some \<lparr>pid = constructed s, ptype = t, poptions = opts\<rparr>)] \<and>
        (if toggle_ok ev
         then fst (toggleEffect ev t opts s) = Inr () \<and>
              enabled (snd (toggleEffect ev t opts s)) \<and>
              videoTrack (snd (toggleEffect ev t opts s)) =
                Some \<lparr>processor = Some \<lparr>pid = constructed s, ptype = t, poptions = opts\<rparr>\<rparr>
         else fst (toggleEffect ev t opts s) = Inl TrackUnavailable \<and>
              enabled (snd (toggleEffect ev t opts s)) = enabled s \<and>
              videoTrack (snd (toggleEffect ev t opts s)) = None)) \<and>
   (videoTrack s' = Some tr \<and> \<not> enabled s'
    \<longrightarrow> take 1 (new_events s' (snd (toggleEffect ev' t' opts' s'))) = [EnableTrack None])"
proof (intro conjI impI)
  assume "videoTrack s = None"
  then show "new_events s (snd (toggleEffect ev t opts s)) =
          [Construct \<lparr>pid = constructed s, ptype = t, poptions = opts\<rparr>,
           EnableTrack (Some \<lparr>pid = constructed s, ptype = t, poptions = opts\<rparr>)]"
    by (simp add: new_events_append toggleEffect_absent Let_def)
next
  assume "videoTrack s = None"
  then show "if toggle_ok ev
         then fst (toggleEffect ev t opts s) = Inr () \<and>
              enabled (snd (toggleEffect ev t opts s)) \<and>
              videoTrack (snd (toggleEffect ev t opts s)) =
                Some \<lparr>processor = Some \<lparr>pid = constructed s, ptype = t, poptions = opts\<rparr>\<rparr>
         else fst (toggleEffect ev t opts s) = Inl TrackUnavailable \<and>
              enabled (snd (toggleEffect ev t opts s)) = enabled s \<and>
              videoTrack (snd (toggleEffect ev t opts s)) = None"
    by (simp add: toggleEffect_absent Let_def)
next
  assume "videoTrack s' = Some tr \<and> \<not> enabled s'"
  then obtain evs where "new_events s' (snd (toggleEffect ev' t' opts' s')) = EnableTrack None # evs"
    using toggleEffect_enables_first [where s = s' and tr = tr and ev = ev' and t = t' and opts = opts']
    by blast
  then show "take 1 (new_events s' (snd (toggleEffect ev' t' opts' s'))) = [EnableTrack None]"
    by simp
qed

theorem toggleEffect_no_track_one_step_witness:
  "new_events (camera_state None False)
      (snd (toggleEffect all_ok BLUR [(''blurRadius'', JNum 10)] (camera_state None False)))
     = [Construct \<lparr>pid = 1, ptype = BLUR, poptions = [(''blurRadius'', JNum 10)]\<rparr>,
        EnableTrack (Some \<lparr>pid = 1, ptype = BLUR, poptions = [(''blurRadius'', JNum 10)]\<rparr>)] \<and>
   fst (toggleEffect all_ok BLUR [(''blurRadius'', JNum 10)] (camera_state None False)) = Inr () \<and>
   enabled (snd (toggleEffect all_ok BLUR [(''blurRadius'', JNum 10)] (camera_state None False))) \<and>
   videoTrack (snd (toggleEffect all_ok BLUR [(''blurRadius'', JNum 10)] (camera_state None False)))
     = Some \<lparr>processor = Some \<lparr>pid = 1, ptype = BLUR, poptions = [(''blurRadius'', JNum 10)]\<rparr>\<rparr> \<and>
   take 1 (new_events (camera_state (Some \<lparr>processor = None\<rparr>) False)
      (snd (toggleEffect all_ok BLUR [(''blurRadius'', JNum 10)]
        (camera_state (Some \<lparr>processor = None\<rparr>) False)))) = [EnableTrack None]"
  using toggleEffect_no_track_one_step
    [where s = "camera_state None False" and ev = all_ok and t = BLUR
       and opts = "[(''blurRadius'', JNum 10)]"
       and s' = "camera_state (Some \<lparr>processor = None\<rparr>) False" and tr = "\<lparr>processor = None\<rparr>"
       and ev' = all_ok and t' = BLUR and opts' = "[(''blurRadius'', JNum 10)]"]
  by (simp add: example_defs)

text \<open>
  C5 as stated fails for a track that exists and is not enabled: the enabling call
  carries no processor, and when the later \<^verbatim>\<open>setProcessor\<close> fails the camera ends
  enabled with no processor.
\<close>

theorem toggleEffect_enabled_without_processor_counterexample:
  "\<not> enabled (camera_state (Some \<lparr>processor = None\<rparr>) False) \<and>
   new_events (camera_state (Some \<lparr>processor = None\<rparr>) False)
      (snd (toggleEffect (all_ok\<lparr>setProcessor_ok := False\<rparr>) BLUR [(''blurRadius'', JNum 10)]
        (camera_state (Some \<lparr>processor = None\<rparr>) False)))
     = [EnableTrack None,
        Construct \<lparr>pid = 1, ptype = BLUR, poptions = [(''blurRadius'', JNum 10)]\<rparr>,
        SetProcessor \<lparr>pid = 1, ptype = BLUR, poptions = [(''blurRadius'', JNum 10)]\<rparr>,
        ConsoleError ProcessorFailure] \<and>
   enabled (snd (toggleEffect (all_ok\<lparr>setProcessor_ok := False\<rparr>) BLUR [(''blurRadius'', JNum 10)]
        (camera_state (Some \<lparr>processor = None\<rparr>) False))) \<and>
   getProcessor (snd (toggleEffect (all_ok\<lparr>setProcessor_ok := False\<rparr>) BLUR [(''blurRadius'', JNum 10)]
        (camera_state (Some \<lparr>processor = None\<rparr>) False))) = None"
  by (simp add: example_defs component_defs isSelected_eq new_events_def)

text \<open>
  C6: every \<^verbatim>\<open>toggleEffect\<close> call sets the pending flag and resets it when the
  operation completes, whether it succeeds or fails. The code does not do so in every
  branch. With no video track and an enabling call that is rejected,
  \<^verbatim>\<open>toggleEffect\<close> is rejected before it queues the reset of the pending flag: no
  timeout is queued and the flag stays set. The same happens on a track that is off and
  cannot be enabled. In the \<^verbatim>\<open>try\<close> block, by contrast, a failing \<^verbatim>\<open>setProcessor\<close>
  is caught, the call resolves and the flag is reset.
\<close>

theorem toggleEffect_pending_stays_set:
  "fst (toggleEffect (all_ok\<lparr>toggle_ok := False\<rparr>) BLUR [(''blurRadius'', JNum 10)]
         (camera_state None False)) = Inl TrackUnavailable \<and>
   timeouts (snd (toggleEffect (all_ok\<lparr>toggle_ok := False\<rparr>) BLUR [(''blurRadius'', JNum 10)]
         (camera_state None False))) = 0 \<and>
   processorPending (runTimeouts (snd (toggleEffect (all_ok\<lparr>toggle_ok := False\<rparr>) BLUR
         [(''blurRadius'', JNum 10)] (camera_state None False)))) \<and>
   fst (toggleEffect (all_ok\<lparr>toggle_ok := False\<rparr>) BLUR [(''blurRadius'', JNum 10)]
         (camera_state (Some \<lparr>processor = None\<rparr>) False)) = Inl TrackUnavailable \<and>
   processorPending (runTimeouts (snd (toggleEffect (all_ok\<lparr>toggle_ok := False\<rparr>) BLUR
         [(''blurRadius'', JNum 10)] (camera_state (Some \<lparr>processor = None\<rparr>) False)))) \<and>
   fst (toggleEffect (all_ok\<lparr>setProcessor_ok := False\<rparr>) BLUR [(''blurRadius'', JNum 10)]
         (camera_state (Some \<lparr>processor = None\<rparr>) True)) = Inr () \<and>
   \<not> processorPending (runTimeouts (snd (toggleEffect (all_ok\<lparr>setProcessor_ok := False\<rparr>) BLUR
         [(''blurRadius'', JNum 10)] (camera_state (Some \<lparr>processor = None\<rparr>) True))))"
  by (simp add: example_defs component_defs isSelected_eq runTimeouts_def)

text \<open>
  C7. From an active face-landmark processor with \<^verbatim>\<open>{showGlasses: true, showFrench: false}\<close>:
  toggling French gives the same processor instance the options
  \<^verbatim>\<open>{showGlasses: true, showFrench: true}\<close>; toggling glasses next gives it
  \<^verbatim>\<open>{showGlasses: false, showFrench: true}\<close>, still active; toggling French after that
  clears the processor, both flags being false. No processor is constructed on the way.
  The calls the three steps make on the track are taken to succeed.
\<close>

theorem faceLandmark_toggle_sequence:
  "videoTrack s = Some tr \<and> processor tr = Some p \<and> ptype p = FACE_LANDMARKS \<and>
   poptions p = [(''showGlasses'', JBool True), (''showFrench'', JBool False)] \<and>
   (enabled s \<or> toggle_ok eva) \<and> update_ok eva \<and> update_ok evb \<and> stopProcessor_ok evc
   \<longrightarrow> (let sa = snd (toggleFaceLandmarkEffect eva french s);
            sb = snd (toggleFaceLandmarkEffect evb glasses sa);
            sc = snd (toggleFaceLandmarkEffect evc french sb)
        in getProcessor sa =
             Some (p\<lparr>poptions := [(''showGlasses'', JBool True), (''showFrench'', JBool True)]\<rparr>) \<and>
           getProcessor sb =
             Some (p\<lparr>poptions := [(''showGlasses'', JBool False), (''showFrench'', JBool True)]\<rparr>) \<and>
           getProcessor sc = None \<and>
           constructed sc = constructed s)"
proof
  assume h: "videoTrack s = Some tr \<and> processor tr = Some p \<and> ptype p = FACE_LANDMARKS \<and>
   poptions p = [(''showGlasses'', JBool True), (''showFrench'', JBool False)] \<and>
   (enabled s \<or> toggle_ok eva) \<and> update_ok eva \<and> update_ok evb \<and> stopProcessor_ok evc"
  let ?both = "[(''showGlasses'', JBool True), (''showFrench'', JBool True)]"
  let ?french = "[(''showGlasses'', JBool False), (''showFrench'', JBool True)]"
  define sa where "sa = snd (toggleFaceLandmarkEffect eva french s)"
  define sb where "sb = snd (toggleFaceLandmarkEffect evb glasses sa)"
  define sc where "sc = snd (toggleFaceLandmarkEffect evc french sb)"
  from h have tr: "videoTrack s = Some tr" and p: "processor tr = Some p"
    and ty: "ptype p = FACE_LANDMARKS"
    and po: "poptions p = [(''showGlasses'', JBool True), (''showFrench'', JBool False)]"
    by simp_all
  let ?pa = "p\<lparr>poptions := ?both\<rparr>"
  let ?pb = "p\<lparr>poptions := ?french\<rparr>"
  have "toggleFaceLandmarkEffect eva french s = toggleEffect eva FACE_LANDMARKS ?both s"
    using tr p ty po by (rule toggleFaceLandmarkEffect_glasses_only)
  then have sa: "sa = s\<lparr>processorPending := True, timeouts := Suc (timeouts s), enabled := True,
             videoTrack := Some (tr\<lparr>processor := Some ?pa\<rparr>),
             events := events s @ enabling_call s @ Update (pid p) ?both #
                (if onSubmit s then [Submit (Some ?pa)] else [])\<rparr>"
    using h toggleEffect_update [where s = s and tr = tr and p = p and t = FACE_LANDMARKS
        and opts = ?both and ev = eva]
    by (simp add: sa_def)
  have tra: "videoTrack sa = Some (tr\<lparr>processor := Some ?pa\<rparr>)"
    and pa: "processor (tr\<lparr>processor := Some ?pa\<rparr>) = Some ?pa"
    and tya: "ptype ?pa = FACE_LANDMARKS" and poa: "poptions ?pa = ?both"
    and ena: "enabled sa"
    using ty by (simp_all add: sa)
  have "toggleFaceLandmarkEffect evb glasses sa = toggleEffect evb FACE_LANDMARKS ?french sa"
    using tra pa tya poa by (rule toggleFaceLandmarkEffect_both)
  then have sb: "sb = sa\<lparr>processorPending := True, timeouts := Suc (timeouts sa), enabled := True,
             videoTrack := Some (tr\<lparr>processor := Some ?pb\<rparr>),
             events := events sa @ enabling_call sa @ Update (pid p) ?french #
                (if onSubmit sa then [Submit (Some ?pb)] else [])\<rparr>"
    using h tra pa tya poa ena
      toggleEffect_update [where s = sa and tr = "tr\<lparr>processor := Some ?pa\<rparr>"
        and p = ?pa and t = FACE_LANDMARKS and opts = ?french and ev = evb]
    by (simp add: sb_def)
  have trb: "videoTrack sb = Some (tr\<lparr>processor := Some ?pb\<rparr>)"
    and pb: "processor (tr\<lparr>processor := Some ?pb\<rparr>) = Some ?pb"
    and tyb: "ptype ?pb = FACE_LANDMARKS" and pob: "poptions ?pb = ?french"
    using ty by (simp_all add: sb)
  have "toggleFaceLandmarkEffect evc french sb = clearEffect evc sb"
    using trb pb tyb pob by (rule toggleFaceLandmarkEffect_french_only)
  then have sc: "getProcessor sc = None \<and> constructed sc = constructed sb"
    using h trb clearEffect_present [where s = sb and tr = "tr\<lparr>processor := Some ?pb\<rparr>"
        and ev = evc]
    by (simp add: sc_def getProcessor_def)
  have "getProcessor sa = Some (p\<lparr>poptions := ?both\<rparr>)"
    by (simp add: sa getProcessor_def)
  moreover have "getProcessor sb = Some (p\<lparr>poptions := ?french\<rparr>)"
    by (simp add: sb getProcessor_def)
  moreover have "constructed sc = constructed s"
    using sc by (simp add: sb sa)
  ultimately show "let sa = snd (toggleFaceLandmarkEffect eva french s);
            sb = snd (toggleFaceLandmarkEffect evb glasses sa);
            sc = snd (toggleFaceLandmarkEffect evc french sb)
        in getProcessor sa = Some (p\<lparr>poptions := ?both\<rparr>) \<and>
           getProcessor sb = Some (p\<lparr>poptions := ?french\<rparr>) \<and>
           getProcessor sc = None \<and>
           constructed sc = constructed s"
    using sc unfolding Let_def sa_def [symmetric] sb_def [symmetric] sc_def [symmetric] by simp
qed

theorem faceLandmark_toggle_sequence_witness:
  "(let sa = snd (toggleFaceLandmarkEffect all_ok french
               (camera_state (Some \<lparr>processor = Some glasses_only\<rparr>) True));
        sb = snd (toggleFaceLandmarkEffect all_ok glasses sa);
        sc = snd (toggleFaceLandmarkEffect all_ok french sb)
    in getProcessor sa =
         Some (glasses_only\<lparr>poptions := [(''showGlasses'', JBool True), (''showFrench'', JBool True)]\<rparr>) \<and>
       getProcessor sb =
         Some (glasses_only\<lparr>poptions := [(''showGlasses'', JBool False), (''showFrench'', JBool True)]\<rparr>) \<and>
       getProcessor sc = None \<and>
       constructed sc = 1)"
  using faceLandmark_toggle_sequence
    [where s = "camera_state (Some \<lparr>processor = Some glasses_only\<rparr>) True"
       and tr = "\<lparr>processor = Some glasses_only\<rparr>" and p = glasses_only
       and eva = all_ok and evb = all_ok and evc = all_ok]
  by (simp add: example_defs)

text \<open>
  C8, as amended. When a \<^verbatim>\<open>clearEffect\<close> call resolves, the track runs no processor,
  and a second call in a row resolves too and leaves the track and the rest of the state
  as the first did; what the second call adds are its own calls: \<^verbatim>\<open>stopProcessor\<close>
  on a track with nothing to stop, and \<^verbatim>\<open>onSubmit(undefined)\<close> once more when the
  parent passes the callback.
\<close>

theorem clearEffect_twice:
  "fst (clearEffect ev s) = Inr ()
   \<longrightarrow> (let sa = snd (clearEffect ev s); sb = snd (clearEffect ev' sa)
        in fst (clearEffect ev' sa) = Inr () \<and>
           getProcessor sa = None \<and>
           sb\<lparr>events := events sa\<rparr> = sa \<and>
           new_events sa sb = StopProcessor # (if onSubmit s then [Submit None] else []))"
proof
  assume ok: "fst (clearEffect ev s) = Inr ()"
  then obtain tr where tr: "videoTrack s = Some tr"
    by (cases "videoTrack s") (simp_all add: component_defs)
  define sa where "sa = snd (clearEffect ev s)"
  have sa: "sa = s\<lparr>videoTrack := Some (tr\<lparr>processor := None\<rparr>),
                  events := events s @ StopProcessor # (if onSubmit s then [Submit None] else [])\<rparr>"
  proof (cases "processor tr")
    case None
    then have "tr\<lparr>processor := None\<rparr> = tr" by simp
    with None tr show ?thesis
      using clearEffect_present [where s = s and tr = tr and ev = ev]
      by (cases s) (simp add: sa_def)
  next
    case (Some p)
    with tr ok show ?thesis
      using clearEffect_present [where s = s and tr = tr and ev = ev]
      by (simp add: sa_def split: if_splits)
  qed
  have tra: "videoTrack sa = Some (tr\<lparr>processor := None\<rparr>)" by (simp add: sa)
  have eq: "clearEffect ev' sa =
            (Inr (), sa\<lparr>events := events sa @ StopProcessor #
                                (if onSubmit sa then [Submit None] else [])\<rparr>)"
    using clearEffect_present [OF tra, of ev'] by simp
  have "fst (clearEffect ev' sa) = Inr ()" by (simp add: eq)
  moreover have "getProcessor sa = None" by (simp add: sa getProcessor_def)
  moreover have "(snd (clearEffect ev' sa))\<lparr>events := events sa\<rparr> = sa" by (simp add: eq)
  moreover have "new_events sa (snd (clearEffect ev' sa)) =
                 StopProcessor # (if onSubmit s then [Submit None] else [])"
    by (simp add: new_events_append eq) (simp add: sa)
  ultimately show "let sa = snd (clearEffect ev s); sb = snd (clearEffect ev' sa)
        in fst (clearEffect ev' sa) = Inr () \<and>
           getProcessor sa = None \<and>
           sb\<lparr>events := events sa\<rparr> = sa \<and>
           new_events sa sb = StopProcessor # (if onSubmit s then [Submit None] else [])"
    unfolding Let_def sa_def [symmetric] by simp
qed

theorem clearEffect_twice_witness:
  "fst (clearEffect all_ok (camera_state (Some \<lparr>processor = Some blur_light\<rparr>) True)) = Inr () \<and>
   (let sa = snd (clearEffect all_ok (camera_state (Some \<lparr>processor = Some blur_light\<rparr>) True));
        sb = snd (clearEffect all_ok sa)
    in fst (clearEffect all_ok sa) = Inr () \<and>
       getProcessor sa = None \<and>
       sb\<lparr>events := events sa\<rparr> = sa \<and>
       new_events sa sb = [StopProcessor, Submit None])"
proof -
  have ok: "fst (clearEffect all_ok (camera_state (Some \<lparr>processor = Some blur_light\<rparr>) True)) = Inr ()"
    by (simp add: example_defs component_defs)
  show ?thesis
    using ok clearEffect_twice
      [where ev = all_ok and s = "camera_state (Some \<lparr>processor = Some blur_light\<rparr>) True"
         and ev' = all_ok]
    by (simp add: camera_state_def)
qed

text \<open>
  C8 as stated fails: the second \<^verbatim>\<open>clearEffect\<close> is not without observable effect. It
  calls \<^verbatim>\<open>onSubmit(undefined)\<close> again, so the parent is notified twice and two calls
  are not equivalent to one.
\<close>

theorem clearEffect_twice_counterexample:
  "events (snd (clearEffect all_ok (camera_state (Some \<lparr>processor = Some blur_light\<rparr>) True)))
     = [StopProcessor, Submit None] \<and>
   events (snd (clearEffect all_ok
      (snd (clearEffect all_ok (camera_state (Some \<lparr>processor = Some blur_light\<rparr>) True)))))
     = [StopProcessor, Submit None, StopProcessor, Submit None] \<and>
   snd (clearEffect all_ok
      (snd (clearEffect all_ok (camera_state (Some \<lparr>processor = Some blur_light\<rparr>) True))))
     \<noteq> snd (clearEffect all_ok (camera_state (Some \<lparr>processor = Some blur_light\<rparr>) True))"
  by (simp add: example_defs component_defs)

text \<open>
  C9. A \<^verbatim>\<open>toggleEffect\<close> call made while no video track exists never calls
  \<^verbatim>\<open>onSubmit\<close>, though it constructs a processor and passes it to the track-enabling
  call. On an existing track, when the parent passes \<^verbatim>\<open>onSubmit\<close> and the calls on
  the track succeed, whichever branch runs (clear, apply or update), the call resolves
  and its last call is \<^verbatim>\<open>onSubmit\<close> with the processor the track then runs
  (\<^verbatim>\<open>undefined\<close> after a clear).
\<close>

theorem toggleEffect_no_track_no_onSubmit:
  "(videoTrack s = None
    \<longrightarrow> (\<forall>x. Submit x \<notin> set (new_events s (snd (toggleEffect ev t opts s)))) \<and>
        Construct \<lparr>pid = constructed s, ptype = t, poptions = opts\<rparr>
          \<in> set (new_events s (snd (toggleEffect ev t opts s))) \<and>
        EnableTrack (Some \<lparr>pid = constructed s, ptype = t, poptions = opts\<rparr>)
          \<in> set (new_events s (snd (toggleEffect ev t opts s)))) \<and>
   (videoTrack s' = Some tr \<and> onSubmit s' \<and> (enabled s' \<or> toggle_ok ev') \<and>
    stopProcessor_ok ev' \<and> setProcessor_ok ev' \<and> update_ok ev'
    \<longrightarrow> fst (toggleEffect ev' t' opts' s') = Inr () \<and>
        (\<exists>evs. new_events s' (snd (toggleEffect ev' t' opts' s')) =
                 evs @ [Submit (getProcessor (snd (toggleEffect ev' t' opts' s')))]))"
proof (intro conjI impI)
  assume "videoTrack s = None"
  then show "\<forall>x. Submit x \<notin> set (new_events s (snd (toggleEffect ev t opts s)))"
    by (simp add: new_events_append toggleEffect_absent Let_def)
next
  assume "videoTrack s = None"
  then show "Construct \<lparr>pid = constructed s, ptype = t, poptions = opts\<rparr>
          \<in> set (new_events s (snd (toggleEffect ev t opts s)))"
    by (simp add: new_events_append toggleEffect_absent Let_def)
next
  assume "videoTrack s = None"
  then show "EnableTrack (Some \<lparr>pid = constructed s, ptype = t, poptions = opts\<rparr>)
          \<in> set (new_events s (snd (toggleEffect ev t opts s)))"
    by (simp add: new_events_append toggleEffect_absent Let_def)
next
  assume h: "videoTrack s' = Some tr \<and> onSubmit s' \<and> (enabled s' \<or> toggle_ok ev') \<and>
    stopProcessor_ok ev' \<and> setProcessor_ok ev' \<and> update_ok ev'"
  then show "fst (toggleEffect ev' t' opts' s') = Inr ()"
    using toggleEffect_reports [where s = s' and tr = tr and ev = ev' and t = t' and opts = opts']
    by blast
next
  assume h: "videoTrack s' = Some tr \<and> onSubmit s' \<and> (enabled s' \<or> toggle_ok ev') \<and>
    stopProcessor_ok ev' \<and> setProcessor_ok ev' \<and> update_ok ev'"
  then show "\<exists>evs. new_events s' (snd (toggleEffect ev' t' opts' s')) =
                 evs @ [Submit (getProcessor (snd (toggleEffect ev' t' opts' s')))]"
    using toggleEffect_reports [where s = s' and tr = tr and ev = ev' and t = t' and opts = opts']
    by blast
qed

theorem toggleEffect_no_track_no_onSubmit_witness:
  "(\<forall>x. Submit x \<notin> set (new_events (camera_state None False)
      (snd (toggleEffect all_ok BLUR [(''blurRadius'', JNum 5)] (camera_state None False))))) \<and>
   Construct \<lparr>pid = 1, ptype = BLUR, poptions = [(''blurRadius'', JNum 5)]\<rparr>
     \<in> set (new_events (camera_state None False)
      (snd (toggleEffect all_ok BLUR [(''blurRadius'', JNum 5)] (camera_state None False)))) \<and>
   EnableTrack (Some \<lparr>pid = 1, ptype = BLUR, poptions = [(''blurRadius'', JNum 5)]\<rparr>)
     \<in> set (new_events (camera_state None False)
      (snd (toggleEffect all_ok BLUR [(''blurRadius'', JNum 5)] (camera_state None False)))) \<and>
   fst (toggleEffect all_ok BLUR [(''blurRadius'', JNum 5)]
      (camera_state (Some \<lparr>processor = Some blur_light\<rparr>) True)) = Inr () \<and>
   (\<exists>evs. new_events (camera_state (Some \<lparr>processor = Some blur_light\<rparr>) True)
      (snd (toggleEffect all_ok BLUR [(''blurRadius'', JNum 5)]
        (camera_state (Some \<lparr>processor = Some blur_light\<rparr>) True)))
     = evs @ [Submit (getProcessor (snd (toggleEffect all_ok BLUR [(''blurRadius'', JNum 5)]
        (camera_state (Some \<lparr>processor = Some blur_light\<rparr>) True))))])"
  using toggleEffect_no_track_no_onSubmit
    [where s = "camera_state None False" and ev = all_ok and t = BLUR
       and opts = "[(''blurRadius'', JNum 5)]"
       and s' = "camera_state (Some \<lparr>processor = Some blur_light\<rparr>) True"
       and tr = "\<lparr>processor = Some blur_light\<rparr>"
       and ev' = all_ok and t' = BLUR and opts' = "[(''blurRadius'', JNum 5)]"]
  by (simp add: example_defs)

text \<open>
  C10. When no processor is active or the active one is not a face-landmark processor,
  \<^verbatim>\<open>getFaceLandmarksOptions\<close> returns \<^verbatim>\<open>{showGlasses: false, showFrench: false}\<close>,
  and \<^verbatim>\<open>toggleFaceLandmarkEffect\<close> is \<^verbatim>\<open>toggleEffect\<close> for a face-landmark overlay
  with the requested flag true and the other false; when the calls on the track succeed,
  that overlay is what the track runs afterwards.
\<close>

theorem faceLandmarks_from_default:
  "(case getProcessor s of None \<Rightarrow> True | Some q \<Rightarrow> ser_type (serialize q) \<noteq> FACE_LANDMARKS)
   \<longrightarrow> getFaceLandmarksOptions s = [(''showGlasses'', JBool False), (''showFrench'', JBool False)] \<and>
       toggleFaceLandmarkEffect ev effect s =
         toggleEffect ev FACE_LANDMARKS
           [(''showGlasses'', JBool (effect = glasses)), (''showFrench'', JBool (effect = french))] s \<and>
       (toggle_ok ev \<and> setProcessor_ok ev
        \<longrightarrow> getProcessor (snd (toggleFaceLandmarkEffect ev effect s)) =
              Some \<lparr>pid = constructed s, ptype = FACE_LANDMARKS,
                    poptions = [(''showGlasses'', JBool (effect = glasses)),
                                (''showFrench'', JBool (effect = french))]\<rparr>)"
proof
  assume h: "case getProcessor s of None \<Rightarrow> True | Some q \<Rightarrow> ser_type (serialize q) \<noteq> FACE_LANDMARKS"
  let ?opts = "[(''showGlasses'', JBool (effect = glasses)), (''showFrench'', JBool (effect = french))]"
  have d: "getFaceLandmarksOptions s = [(''showGlasses'', JBool False), (''showFrench'', JBool False)]"
    using h by (simp add: getFaceLandmarksOptions_def split: option.splits)
  have t: "toggleFaceLandmarkEffect ev effect s = toggleEffect ev FACE_LANDMARKS ?opts s"
    by (cases effect) (simp_all add: toggleFaceLandmarkEffect_def d effect_key_def Let_def)
  have "getProcessor (snd (toggleFaceLandmarkEffect ev effect s)) =
          Some \<lparr>pid = constructed s, ptype = FACE_LANDMARKS, poptions = ?opts\<rparr>"
    if "toggle_ok ev \<and> setProcessor_ok ev"
  proof -
    from h have "case getProcessor s of None \<Rightarrow> True | Some q \<Rightarrow> ptype q \<noteq> FACE_LANDMARKS"
      by (simp add: serialize_def split: option.splits)
    with that show ?thesis
      using toggleEffect_first_apply [where ev = ev and s = s and t = FACE_LANDMARKS and opts = ?opts]
      by (auto simp: t getProcessor_def)
  qed
  with d t show "getFaceLandmarksOptions s = [(''showGlasses'', JBool False), (''showFrench'', JBool False)] \<and>
       toggleFaceLandmarkEffect ev effect s = toggleEffect ev FACE_LANDMARKS ?opts s \<and>
       (toggle_ok ev \<and> setProcessor_ok ev
        \<longrightarrow> getProcessor (snd (toggleFaceLandmarkEffect ev effect s)) =
              Some \<lparr>pid = constructed s, ptype = FACE_LANDMARKS, poptions = ?opts\<rparr>)"
    by blast
qed

theorem faceLandmarks_from_default_witness:
  "getFaceLandmarksOptions (camera_state (Some \<lparr>processor = Some blur_light\<rparr>) True)
     = [(''showGlasses'', JBool False), (''showFrench'', JBool False)] \<and>
   toggleFaceLandmarkEffect all_ok french (camera_state (Some \<lparr>processor = Some blur_light\<rparr>) True)
     = toggleEffect all_ok FACE_LANDMARKS
         [(''showGlasses'', JBool False), (''showFrench'', JBool True)]
         (camera_state (Some \<lparr>processor = Some blur_light\<rparr>) True) \<and>
   getProcessor (snd (toggleFaceLandmarkEffect all_ok french
         (camera_state (Some \<lparr>processor = Some blur_light\<rparr>) True)))
     = Some \<lparr>pid = 1, ptype = FACE_LANDMARKS,
             poptions = [(''showGlasses'', JBool False), (''showFrench'', JBool True)]\<rparr>"
proof -
  have h: "case getProcessor (camera_state (Some \<lparr>processor = Some blur_light\<rparr>) True) of
             None \<Rightarrow> True | Some q \<Rightarrow> ser_type (serialize q) \<noteq> FACE_LANDMARKS"
    by (simp add: example_defs getProcessor_def serialize_def)
  have ok: "toggle_ok all_ok \<and> setProcessor_ok all_ok"
    by (simp add: all_ok_def)
  have c: "constructed (camera_state (Some \<lparr>processor = Some blur_light\<rparr>) True) = 1"
    by (simp add: camera_state_def)
  show ?thesis
    using h ok c faceLandmarks_from_default
      [where s = "camera_state (Some \<lparr>processor = Some blur_light\<rparr>) True" and ev = all_ok
         and effect = french]
    by auto
qed

end
